theory Spec2Isabelle
  imports Complex_Main
begin

section \<open>JavaScript values\<close>

text \<open>
  The values that travel through the server: request fields, database columns, board
  cells and the fields of outbound messages. \<open>===\<close> and the key comparison of
  \<open>Map\<close> (SameValueZero) are equality on this type: \<open>Num 1\<close> and \<open>Str ''1''\<close>
  are different values.
\<close>

datatype jsval = Undefined | Null | Bool bool | Num int | Str string

text \<open>\<open>!v\<close> is true exactly on the falsy values.\<close>

fun falsy :: "jsval \<Rightarrow> bool" where
  "falsy Undefined = True"
| "falsy Null = True"
| "falsy (Bool b) = (\<not> b)"
| "falsy (Num n) = (n = 0)"
| "falsy (Str s) = (s = [])"

datatype js_error = ReferenceError string | TypeError string | RangeError string

text \<open>An object literal, as it is handed to \<open>JSON.stringify\<close>.\<close>

type_synonym js_obj = "(string \<times> jsval) list"

section \<open>The game table (db.js, logic.js)\<close>

text \<open>
  A board is an array of rows, each an array of cells; a cell is \<open>null\<close>,
  \<open>"red"\<close> or \<open>"yellow"\<close>. The column \<open>game_state\<close> holds the board as JSON
  text, which \<open>JSON.parse\<close> turns back into the same arrays.
\<close>

type_synonym board = "jsval list list"

record game =
  player1_id :: jsval
  player2_id :: jsval
  current_turn :: jsval
  game_state :: board
  winner_id :: jsval

text \<open>The table \<open>game\<close>, by the number the \<open>game_id\<close> column is matched against.\<close>

type_synonym game_table = "nat \<rightharpoonup> game"

text \<open>\<open>createGame\<close> of logic.js: \<open>Array(6).fill(null).map(() => Array(7).fill(null))\<close>.\<close>

definition initialBoard :: board where
  "initialBoard = replicate 6 (replicate 7 Null)"

text \<open>
  \<open>getGameWithId\<close> of db.js returns \<open>result[0]\<close>: the row, or \<open>undefined\<close>
  (here \<open>None\<close>) when no row matches. logic.js passes the answer on.
\<close>

definition db_getGameWithId :: "game_table \<Rightarrow> nat \<Rightarrow> game option" where
  "db_getGameWithId tbl gameId = tbl gameId"

definition logic_getGameWithId :: "game_table \<Rightarrow> nat \<Rightarrow> game option" where
  "logic_getGameWithId tbl gameId = db_getGameWithId tbl gameId"

text \<open>
  \<open>updateGameState\<close> of db.js is declared with an empty parameter list,
  \<open>async function updateGameState() { ... }\<close>, and its body reads \<open>board\<close>,
  \<open>nextTurn\<close> and \<open>gameId\<close>. db.js binds none of these names, so evaluating the
  arguments of \<open>pool.query\<close> raises a ReferenceError at \<open>JSON.stringify(board)\<close>,
  before any query is issued: the table is returned as it was and the promise is
  rejected. The arguments of the caller are dropped.
\<close>

definition db_updateGameState :: "game_table \<Rightarrow> game_table \<times> (js_error + nat)" where
  "db_updateGameState tbl = (tbl, Inl (ReferenceError ''board''))"

text \<open>
  \<open>updateGameState\<close> of logic.js calls \<open>DB.updateGameState(board, nextTurn, gameId)\<close>
  and returns its promise, so it settles the way that one does.
\<close>

definition logic_updateGameState ::
  "board \<Rightarrow> jsval \<Rightarrow> nat \<Rightarrow> game_table \<Rightarrow> game_table \<times> (js_error + nat)" where
  "logic_updateGameState board nextTurn gameId tbl = db_updateGameState tbl"

section \<open>The server state\<close>

text \<open>A connection is its handle; two handles are the same connection when equal.\<close>

type_synonym conn = nat

text \<open>
  A \<open>Set\<close> of connections is a list without duplicates, in insertion order; a
  \<open>Map\<close> that the code iterates over is an association list in insertion order.
\<close>

definition set_add :: "'a \<Rightarrow> 'a list \<Rightarrow> 'a list" where
  "set_add x xs = (if x \<in> set xs then xs else xs @ [x])"

definition set_delete :: "'a \<Rightarrow> 'a list \<Rightarrow> 'a list" where
  "set_delete x xs = removeAll x xs"

definition map_has :: "('k \<times> 'v) list \<Rightarrow> 'k \<Rightarrow> bool" where
  "map_has m k = (map_of m k \<noteq> None)"

fun map_set :: "'k \<Rightarrow> 'v \<Rightarrow> ('k \<times> 'v) list \<Rightarrow> ('k \<times> 'v) list" where
  "map_set k v [] = [(k, v)]"
| "map_set k v ((k', v') # m) = (if k' = k then (k, v) # m else (k', v') # map_set k v m)"

record challenge =
  sender_id :: jsval
  challenger_id :: jsval

record server =
  games :: game_table
  next_game_id :: nat
  challenges :: "jsval \<rightharpoonup> challenge"
  userSockets :: "jsval \<rightharpoonup> conn"
  rooms :: "(jsval \<times> conn list) list"
  is_open :: "conn \<Rightarrow> bool"
  sent :: "(conn \<times> js_obj) list"

text \<open>\<open>socket.send(JSON.stringify(obj))\<close>: the call is recorded, in order.\<close>

definition send :: "conn \<Rightarrow> js_obj \<Rightarrow> server \<Rightarrow> server" where
  "send c obj s = s\<lparr>sent := sent s @ [(c, obj)]\<rparr>"

section \<open>POST /game/:gameId/move\<close>

datatype http_response = Response nat string

text \<open>
  \<open>board[row][col]\<close> for a row inside the board: a column past the end of the row reads
  \<open>undefined\<close>. \<open>board[row][col] = v\<close> past the end of the row extends it.
\<close>

definition cell_at :: "board \<Rightarrow> nat \<Rightarrow> nat \<Rightarrow> jsval" where
  "cell_at board row col =
     (if col < length (board ! row) then board ! row ! col else Undefined)"

definition array_store :: "jsval list \<Rightarrow> nat \<Rightarrow> jsval \<Rightarrow> jsval list" where
  "array_store xs i v =
     (if i < length xs then xs[i := v] else xs @ replicate (i - length xs) Undefined @ [v])"

definition set_cell :: "board \<Rightarrow> nat \<Rightarrow> nat \<Rightarrow> jsval \<Rightarrow> board" where
  "set_cell board row col v = board[row := array_store (board ! row) col v]"

text \<open>
  The loop \<open>for (let row = board.length - 1; row >= 0; row--)\<close>: the last argument is
  \<open>row + 1\<close>, so the call with \<open>length board\<close> starts at the bottom row. The first
  falsy cell met is marked and the loop breaks, giving the row and the board;
  \<open>None\<close> is \<open>placed = false\<close>.
\<close>

fun scan_column :: "board \<Rightarrow> nat \<Rightarrow> jsval \<Rightarrow> nat \<Rightarrow> (nat \<times> board) option" where
  "scan_column board col mark 0 = None"
| "scan_column board col mark (Suc row) =
     (if falsy (cell_at board row col) then Some (row, set_cell board row col mark)
      else scan_column board col mark row)"

text \<open>
  \<open>playerId === game.player1_id ? "red" : "yellow"\<close> and
  \<open>playerId === game.player1_id ? game.player2_id : game.player1_id\<close>.
\<close>

definition mark_of :: "game \<Rightarrow> jsval \<Rightarrow> jsval" where
  "mark_of g playerId = (if playerId = player1_id g then Str ''red'' else Str ''yellow'')"

definition nextTurn_of :: "game \<Rightarrow> jsval \<Rightarrow> jsval" where
  "nextTurn_of g playerId = (if playerId = player1_id g then player2_id g else player1_id g)"

text \<open>
  The checks of the handler up to \<open>if (!placed)\<close>, in its order: the column range,
  the game, the turn, the scan, for a request whose \<open>col\<close> is an integer number. The
  answer is either the response it sends, or the resolved row and the board it goes on
  with. The player id is any value, compared with \<open>!==\<close>. The handler does not check
  that \<open>col\<close> is an integer; \<open>game_move_body\<close> below is the handler for every value
  of \<open>col\<close>, and agrees with this one on the integers.
\<close>

definition place_move :: "game_table \<Rightarrow> nat \<Rightarrow> jsval \<Rightarrow> int \<Rightarrow> http_response + (game \<times> nat \<times> board)" where
  "place_move tbl gameId playerId col =
     (if col < 0 \<or> col \<ge> 7 then Inl (Response 400 ''Invalid column'')
      else case logic_getGameWithId tbl gameId of
        None \<Rightarrow> Inl (Response 404 ''Game not found'')
      | Some g \<Rightarrow>
          if current_turn g \<noteq> playerId then Inl (Response 400 ''Not your turn'')
          else (case scan_column (game_state g) (nat col) (mark_of g playerId)
                       (length (game_state g)) of
                  None \<Rightarrow> Inl (Response 400 ''Column is full'')
                | Some (row, board) \<Rightarrow> Inr (g, row, board)))"

text \<open>
  The whole handler, for an integer \<open>col\<close>. It has no \<open>try\<close>: when \<open>await logic.updateGameState(...)\<close>
  throws, the handler's promise is rejected and no response is sent (\<open>Inl\<close>). The
  statement after it builds \<open>{ action: "gameMove", gameId, col, row, playerId }\<close>;
  \<open>row\<close> is declared by \<open>let\<close> in the \<open>for\<close> statement and is out of scope there,
  so that statement raises a ReferenceError and the sends and \<open>res.status(200)\<close> after
  it are never reached.
\<close>

definition game_move ::
  "server \<Rightarrow> nat \<Rightarrow> jsval \<Rightarrow> int \<Rightarrow> server \<times> (js_error + http_response)" where
  "game_move s gameId playerId col =
     (case place_move (games s) gameId playerId col of
        Inl response \<Rightarrow> (s, Inr response)
      | Inr (g, row, board) \<Rightarrow>
          (case logic_updateGameState board (nextTurn_of g playerId) gameId (games s) of
             (tbl, Inl e) \<Rightarrow> (s\<lparr>games := tbl\<rparr>, Inl e)
           | (tbl, Inr affectedRows) \<Rightarrow> (s\<lparr>games := tbl\<rparr>, Inl (ReferenceError ''row''))))"

subsection \<open>The handler on any request body\<close>

text \<open>
  \<open>col\<close> is read from \<open>req.body\<close> and used as it comes: absent, or any JSON value. A
  number is the double \<open>JSON.parse\<close> gives, an overflowing literal being infinite. An
  array or an object takes part in a comparison and in a property access through its
  string form, so it acts as the \<open>JString\<close> of that string.
\<close>

datatype js_number = NaN | NegInfinity | Finite rat | PosInfinity

datatype body_value = Absent | JNull | JBool bool | JNumber js_number | JString string

text \<open>
  What the platform decides about a string: the number it converts to, and whether an
  array inherits a property of that name (\<open>push\<close>, \<open>constructor\<close>, \<open>toString\<close>
  and the like, all of them functions or objects, hence truthy).
\<close>

record platform =
  StringToNumber :: "string \<Rightarrow> js_number"
  inherited :: "string \<Rightarrow> bool"

text \<open>\<open>ToNumber\<close>, which \<open><\<close> and \<open>>=\<close> apply to \<open>col\<close> next to a number.\<close>

fun ToNumber :: "platform \<Rightarrow> body_value \<Rightarrow> js_number" where
  "ToNumber P Absent = NaN"
| "ToNumber P JNull = Finite 0"
| "ToNumber P (JBool b) = Finite (if b then 1 else 0)"
| "ToNumber P (JNumber x) = x"
| "ToNumber P (JString str) = StringToNumber P str"

text \<open>\<open>x < k\<close> and \<open>x >= k\<close> for a finite \<open>k\<close>; every comparison with \<open>NaN\<close> is false.\<close>

fun js_less :: "js_number \<Rightarrow> rat \<Rightarrow> bool" where
  "js_less NaN k = False"
| "js_less NegInfinity k = True"
| "js_less (Finite x) k = (x < k)"
| "js_less PosInfinity k = False"

fun js_greater_eq :: "js_number \<Rightarrow> rat \<Rightarrow> bool" where
  "js_greater_eq NaN k = False"
| "js_greater_eq NegInfinity k = False"
| "js_greater_eq (Finite x) k = (k \<le> x)"
| "js_greater_eq PosInfinity k = True"

text \<open>\<open>col < 0 || col >= 7\<close>\<close>

definition col_out_of_range :: "platform \<Rightarrow> body_value \<Rightarrow> bool" where
  "col_out_of_range P col = (js_less (ToNumber P col) 0 \<or> js_greater_eq (ToNumber P col) 7)"

text \<open>
  The property key \<open>col\<close> stands for in \<open>board[row][col]\<close>: an array index when it is,
  or is the canonical decimal text of, an integer from 0 to \<open>2^32 - 2\<close>; otherwise a
  name. The text of a number that is no index (\<open>2.5\<close>, \<open>-1\<close>, \<open>NaN\<close>) names no
  property of an array.
\<close>

datatype prop_key = Index nat | Name string | NumberName

definition is_digit :: "char \<Rightarrow> bool" where
  "is_digit c = (c \<in> set ''0123456789'')"

definition decimal_value :: "string \<Rightarrow> nat" where
  "decimal_value str = foldl (\<lambda>acc c. 10 * acc + (of_char c - 48)) 0 str"

definition string_index :: "string \<Rightarrow> nat option" where
  "string_index str =
     (if str \<noteq> [] \<and> list_all is_digit str \<and> (length str = 1 \<or> hd str \<noteq> CHR ''0'')
         \<and> decimal_value str < 4294967295
      then Some (decimal_value str) else None)"

fun property_key :: "body_value \<Rightarrow> prop_key" where
  "property_key Absent = Name ''undefined''"
| "property_key JNull = Name ''null''"
| "property_key (JBool b) = Name (if b then ''true'' else ''false'')"
| "property_key (JNumber (Finite x)) =
     (if x = of_int \<lfloor>x\<rfloor> \<and> 0 \<le> x \<and> x < 4294967295 then Index (nat \<lfloor>x\<rfloor>) else NumberName)"
| "property_key (JNumber x) = NumberName"
| "property_key (JString str) =
     (case string_index str of Some i \<Rightarrow> Index i | None \<Rightarrow> Name str)"

text \<open>
  \<open>!board[row][col]\<close> on one row, an array that \<open>JSON.parse\<close> has built: its own
  properties are its elements and \<open>length\<close>; any other name is looked up on the
  prototype chain.
\<close>

fun cell_falsy :: "platform \<Rightarrow> jsval list \<Rightarrow> prop_key \<Rightarrow> bool" where
  "cell_falsy P r (Index i) = falsy (if i < length r then r ! i else Undefined)"
| "cell_falsy P r (Name str) = (if str = ''length'' then length r = 0 else \<not> inherited P str)"
| "cell_falsy P r NumberName = True"

text \<open>
  \<open>board[row][col] = mark\<close> on one row, where the cell was falsy. An index stores an
  element. Storing the mark, a string, as \<open>length\<close> raises a RangeError. Any other name
  becomes a property of its own beside the elements, which \<open>JSON.stringify\<close> leaves
  out: the elements are as they were.
\<close>

fun row_put :: "jsval list \<Rightarrow> prop_key \<Rightarrow> jsval \<Rightarrow> js_error + jsval list" where
  "row_put r (Index i) v = Inr (array_store r i v)"
| "row_put r (Name str) v = (if str = ''length'' then Inl (RangeError ''length'') else Inr r)"
| "row_put r NumberName v = Inr r"

text \<open>The loop of the handler again, from the bottom row up, for any property key.\<close>

fun scan_property ::
  "platform \<Rightarrow> board \<Rightarrow> prop_key \<Rightarrow> jsval \<Rightarrow> nat \<Rightarrow> js_error + (nat \<times> board) option" where
  "scan_property P board key mark 0 = Inr None"
| "scan_property P board key mark (Suc row) =
     (if cell_falsy P (board ! row) key
      then (case row_put (board ! row) key mark of
              Inl e \<Rightarrow> Inl e
            | Inr r \<Rightarrow> Inr (Some (row, board[row := r])))
      else scan_property P board key mark row)"

text \<open>
  The whole handler, statement by statement, for any \<open>col\<close>. Each \<open>return\<close> ends it
  with the state as it is; an exception ends it with no response.
\<close>

definition game_move_body ::
  "platform \<Rightarrow> server \<Rightarrow> nat \<Rightarrow> jsval \<Rightarrow> body_value \<Rightarrow> server \<times> (js_error + http_response)" where
  "game_move_body P s gameId playerId col =
     (if col_out_of_range P col then (s, Inr (Response 400 ''Invalid column''))
      else case logic_getGameWithId (games s) gameId of
        None \<Rightarrow> (s, Inr (Response 404 ''Game not found''))
      | Some g \<Rightarrow>
          if current_turn g \<noteq> playerId then (s, Inr (Response 400 ''Not your turn''))
          else (case scan_property P (game_state g) (property_key col) (mark_of g playerId)
                       (length (game_state g)) of
                  Inl e \<Rightarrow> (s, Inl e)
                | Inr None \<Rightarrow> (s, Inr (Response 400 ''Column is full''))
                | Inr (Some (row, board)) \<Rightarrow>
                    (case logic_updateGameState board (nextTurn_of g playerId) gameId (games s) of
                       (tbl, Inl e) \<Rightarrow> (s\<lparr>games := tbl\<rparr>, Inl e)
                     | (tbl, Inr affectedRows) \<Rightarrow>
                         (s\<lparr>games := tbl\<rparr>, Inl (ReferenceError ''row'')))))"

section \<open>The WebSocket server\<close>

text \<open>
  The payload of an inbound frame, as \<open>JSON.parse\<close> answers it: a syntax error,
  \<open>null\<close>, or a value whose properties can be read. A number, string,
  boolean or array has none of the properties the handler reads, like the empty object.
\<close>

datatype inbound = Malformed | JsonNull | JsonObj js_obj

definition field :: "js_obj \<Rightarrow> string \<Rightarrow> jsval" where
  "field data k = (case map_of data k of None \<Rightarrow> Undefined | Some v \<Rightarrow> v)"

definition map_modify :: "'k \<Rightarrow> ('v \<Rightarrow> 'v) \<Rightarrow> ('k \<times> 'v) list \<Rightarrow> ('k \<times> 'v) list" where
  "map_modify k f m = map (\<lambda>(k', v). if k' = k then (k', f v) else (k', v)) m"

definition lobby :: jsval where
  "lobby = Str ''lobby''"

text \<open>\<open>rooms.set("lobby", new Set())\<close> and the empty maps of the start.\<close>

definition initial_server :: server where
  "initial_server = \<lparr>games = Map.empty, next_game_id = 1, challenges = Map.empty,
     userSockets = Map.empty, rooms = [(lobby, [])], is_open = (\<lambda>c. True), sent = []\<rparr>"

text \<open>\<open>if (!rooms.has(room)) rooms.set(room, new Set()); rooms.get(room).add(ws)\<close>\<close>

definition room_join :: "jsval \<Rightarrow> conn \<Rightarrow> (jsval \<times> conn list) list \<Rightarrow> (jsval \<times> conn list) list" where
  "room_join room ws m =
     map_modify room (set_add ws) (if \<not> map_has m room then map_set room [] m else m)"

text \<open>\<open>if (rooms.has(room)) rooms.get(room).delete(ws)\<close>\<close>

definition room_leave :: "jsval \<Rightarrow> conn \<Rightarrow> (jsval \<times> conn list) list \<Rightarrow> (jsval \<times> conn list) list" where
  "room_leave room ws m = (if map_has m room then map_modify room (set_delete ws) m else m)"

text \<open>
  \<open>wss.on('connection')\<close>. \<open>URLSearchParams.get\<close> answers a string or \<open>null\<close>, so
  the key under which the socket is registered is always a string. Without a
  \<open>userId\<close> the socket is closed and no handler is installed. The lobby is in the
  map from the start and no code path deletes it, so \<open>rooms.get("lobby")\<close> is a set.
\<close>

definition on_connection :: "conn \<Rightarrow> string option \<Rightarrow> string option \<Rightarrow> server \<Rightarrow> server" where
  "on_connection ws userId gameId s =
     (case userId of
        None \<Rightarrow> s\<lparr>is_open := (is_open s)(ws := False)\<rparr>
      | Some u \<Rightarrow>
          if u = [] then s\<lparr>is_open := (is_open s)(ws := False)\<rparr>
          else
            let s1 = s\<lparr>userSockets := (userSockets s)(Str u \<mapsto> ws)\<rparr> in
            (case gameId of
               None \<Rightarrow> s1\<lparr>rooms := map_modify lobby (set_add ws) (rooms s1)\<rparr>
             | Some g \<Rightarrow>
                 if g = [] then s1\<lparr>rooms := map_modify lobby (set_add ws) (rooms s1)\<rparr>
                 else s1\<lparr>rooms := room_leave lobby ws (room_join (Str g) ws (rooms s1))\<rparr>))"

text \<open>The loop of the \<open>message\<close> action over the members of a room.\<close>

fun broadcast :: "conn list \<Rightarrow> js_obj \<Rightarrow> server \<Rightarrow> server" where
  "broadcast [] obj s = s"
| "broadcast (client # rest) obj s =
     broadcast rest obj (if is_open s client then send client obj s else s)"

text \<open>
  \<open>String(v)\<close>. An integer is printed in full, as the platform does below
  \<open>10^21\<close>; from there on the platform prints an exponent, which is not modelled.
\<close>

fun digits :: "nat \<Rightarrow> string" where
  "digits n = (if n < 10 then [''0123456789'' ! n]
               else digits (n div 10) @ [''0123456789'' ! (n mod 10)])"

declare digits.simps [simp del]

fun js_String :: "jsval \<Rightarrow> string" where
  "js_String Undefined = ''undefined''"
| "js_String Null = ''null''"
| "js_String (Bool b) = (if b then ''true'' else ''false'')"
| "js_String (Num n) = (if n < 0 then CHR ''-'' # digits (nat (- n)) else digits (nat n))"
| "js_String (Str s) = s"

text \<open>
  \<open>getChallengeWithId\<close> of db.js returns \<open>result[0]\<close>: the row, or \<open>undefined\<close>
  when no challenge has the id. logic.js passes the answer on.
\<close>

definition db_getChallengeWithId :: "(jsval \<rightharpoonup> challenge) \<Rightarrow> jsval \<Rightarrow> challenge option" where
  "db_getChallengeWithId tbl challengeId = tbl challengeId"

definition logic_getChallengeWithId :: "(jsval \<rightharpoonup> challenge) \<Rightarrow> jsval \<Rightarrow> challenge option" where
  "logic_getChallengeWithId tbl challengeId = db_getChallengeWithId tbl challengeId"

text \<open>
  The body of the inner \<open>try\<close> of \<open>case "declineChallenge"\<close>. The test
  \<open>challege.length === 0\<close> reads a property of \<open>undefined\<close> when no row was found,
  which raises a TypeError; a row has no \<open>length\<close>, so for a row the test is false.
\<close>

definition decline_try :: "jsval \<Rightarrow> jsval \<Rightarrow> server \<Rightarrow> server \<times> (js_error + unit)" where
  "decline_try userId challengeId s =
     (case logic_getChallengeWithId (challenges s) challengeId of
        None \<Rightarrow> (s, Inl (TypeError ''length''))
      | Some challege \<Rightarrow>
          (case userSockets s (Str (js_String (sender_id challege))) of
             Some senderSocket \<Rightarrow>
               (send senderSocket
                  [(''action'', Str ''challengeDeclined''), (''challengeId'', challengeId),
                   (''message'', Str ''Challenge declined''), (''userId'', userId)] s, Inr ())
           | None \<Rightarrow> (s, Inr ())))"

definition decline_challenge :: "conn \<Rightarrow> jsval \<Rightarrow> js_obj \<Rightarrow> server \<Rightarrow> server" where
  "decline_challenge ws userId data s =
     (let challengeId = field data ''challengeId'' in
      if falsy challengeId
      then send ws [(''error'', Str ''challengeId is required to decline a challenge'')] s
      else (case decline_try userId challengeId s of
              (s', Inl err) \<Rightarrow> send ws [(''error'', Str ''Failed to decline challenge'')] s'
            | (s', Inr u) \<Rightarrow> s'))"

text \<open>
  \<open>createGame\<close> of logic.js and db.js: a row with the empty board and the creator to
  move; the answer is the \<open>insertId\<close>. \<open>pool.execute\<close> refuses a bind parameter
  that is \<open>undefined\<close> with a TypeError before it sends the statement, so a message
  without \<open>senderId\<close> or \<open>accepterId\<close> stores nothing. Otherwise the storage layer
  is taken to answer.
\<close>

definition logic_createGame :: "jsval \<Rightarrow> jsval \<Rightarrow> server \<Rightarrow> server \<times> (js_error + nat)" where
  "logic_createGame userId opponentId s =
     (if userId = Undefined \<or> opponentId = Undefined then (s, Inl (TypeError ''bind parameter''))
      else
        let gid = next_game_id s in
        (s\<lparr>games := (games s)(gid \<mapsto> \<lparr>player1_id = userId, player2_id = opponentId,
              current_turn = userId, game_state = initialBoard, winner_id = Null\<rparr>),
            next_game_id := Suc gid\<rparr>, Inr gid))"

text \<open>
  \<open>case "startGame"\<close>: what \<open>await logic.createGame\<close> throws leaves the case for the
  \<open>catch\<close> of the handler.
\<close>

definition start_game :: "js_obj \<Rightarrow> server \<Rightarrow> server \<times> (js_error + unit)" where
  "start_game data s =
     (let senderId = field data ''senderId''; accepterId = field data ''accepterId'' in
      case logic_createGame senderId accepterId s of
        (s1, Inl e) \<Rightarrow> (s1, Inl e)
      | (s1, Inr gid) \<Rightarrow>
          let s2 = (case userSockets s1 senderId of
                      Some senderSocket \<Rightarrow>
                        send senderSocket [(''action'', Str ''startGame''),
                          (''opponentId'', accepterId), (''gameId'', Num (int gid))] s1
                    | None \<Rightarrow> s1)
          in ((case userSockets s2 accepterId of
                 Some accepterSocket \<Rightarrow>
                   send accepterSocket [(''action'', Str ''startGame''),
                     (''opponentId'', senderId), (''gameId'', Num (int gid))] s2
               | None \<Rightarrow> s2), Inr ()))"

definition send_challenge :: "conn \<Rightarrow> jsval \<Rightarrow> js_obj \<Rightarrow> server \<Rightarrow> server" where
  "send_challenge ws userId data s =
     (if falsy (field data ''targetUserId'')
      then send ws [(''error'', Str ''Target user is not connected'')] s
      else (case userSockets s (field data ''targetUserId'') of
              Some targetSocket \<Rightarrow>
                send targetSocket [(''action'', Str ''challenge''),
                  (''challengeId'', field data ''challengeId''), (''senderId'', userId),
                  (''message'', field data ''message'')] s
            | None \<Rightarrow> send ws [(''error'', Str ''Target user is not connected'')] s))"

definition room_message :: "conn \<Rightarrow> js_obj \<Rightarrow> server \<Rightarrow> server" where
  "room_message ws data s =
     (case map_of (rooms s) (field data ''room'') of
        Some clients \<Rightarrow>
          broadcast clients [(''action'', Str ''message''), (''room'', field data ''room''),
            (''message'', field data ''message'')] s
      | None \<Rightarrow> send ws [(''error'', Str ''Room does not exist'')] s)"

text \<open>
  The \<open>switch\<close> inside the \<open>try\<close> of \<open>ws.on('message')\<close>. The cases
  \<open>"gameChat"\<close> and \<open>"gameMove"\<close> start by calling \<open>gameRooms.has(...)\<close>; the
  server declares \<open>rooms\<close>, \<open>userSockets\<close> and \<open>storedChallenges\<close> and no
  \<open>gameRooms\<close>, so both raise a ReferenceError.
\<close>

definition dispatch :: "conn \<Rightarrow> jsval \<Rightarrow> js_obj \<Rightarrow> server \<Rightarrow> server \<times> (js_error + unit)" where
  "dispatch ws userId data s =
     (let action = field data ''action'' in
      if action = Str ''join'' then
        (s\<lparr>rooms := room_join (field data ''room'') ws (rooms s)\<rparr>, Inr ())
      else if action = Str ''leave'' then
        (s\<lparr>rooms := room_leave (field data ''room'') ws (rooms s)\<rparr>, Inr ())
      else if action = Str ''message'' then (room_message ws data s, Inr ())
      else if action = Str ''sendChallenge'' then (send_challenge ws userId data s, Inr ())
      else if action = Str ''declineChallenge'' then (decline_challenge ws userId data s, Inr ())
      else if action = Str ''startGame'' then start_game data s
      else if action = Str ''gameChat'' then (s, Inl (ReferenceError ''gameRooms''))
      else if action = Str ''gameMove'' then (s, Inl (ReferenceError ''gameRooms''))
      else (send ws [(''error'', Str ''Unknown action'')] s, Inr ()))"

text \<open>
  \<open>ws.on('message')\<close>: whatever is thrown inside the \<open>try\<close>, by \<open>JSON.parse\<close>,
  by destructuring \<open>null\<close> or by a case of the \<open>switch\<close>, reaches the one
  \<open>catch\<close>, which answers the sender.
\<close>

definition on_message :: "conn \<Rightarrow> jsval \<Rightarrow> inbound \<Rightarrow> server \<Rightarrow> server" where
  "on_message ws userId message s =
     (case message of
        Malformed \<Rightarrow> send ws [(''error'', Str ''Invalid message format'')] s
      | JsonNull \<Rightarrow> send ws [(''error'', Str ''Invalid message format'')] s
      | JsonObj data \<Rightarrow>
          (case dispatch ws userId data s of
             (s', Inl err) \<Rightarrow> send ws [(''error'', Str ''Invalid message format'')] s'
           | (s', Inr u) \<Rightarrow> s'))"

text \<open>
  The loop of \<open>ws.on('close')\<close> over \<open>rooms.entries()\<close>. Deleting the entry being
  visited does not disturb the iteration over the others.
\<close>

fun close_rooms :: "conn \<Rightarrow> (jsval \<times> conn list) list \<Rightarrow> (jsval \<times> conn list) list" where
  "close_rooms ws [] = []"
| "close_rooms ws ((room, clients) # rest) =
     (if ws \<in> set clients then
        (if room \<noteq> lobby \<and> length (set_delete ws clients) = 0 then close_rooms ws rest
         else (room, set_delete ws clients) # close_rooms ws rest)
      else (room, clients) # close_rooms ws rest)"

definition on_close :: "conn \<Rightarrow> jsval \<Rightarrow> server \<Rightarrow> server" where
  "on_close ws userId s =
     s\<lparr>userSockets := (userSockets s)(userId := None), rooms := close_rooms ws (rooms s)\<rparr>"

section \<open>Session tokens (logic.js)\<close>

text \<open>
  \<open>hashTokenPart\<close> is \<open>crypto.createHash('sha256').update(value).digest('hex')\<close>.
  The digest function belongs to the platform and is a parameter here. \<open>update\<close>
  raises a TypeError on \<open>null\<close>, which is what \<open>validateSanitizeUsername\<close> answers for
  a rejected name.
\<close>

definition hashTokenPart :: "(string \<Rightarrow> string) \<Rightarrow> string option \<Rightarrow> js_error + string" where
  "hashTokenPart sha256_hex v =
     (case v of None \<Rightarrow> Inl (TypeError ''data'') | Some x \<Rightarrow> Inr (sha256_hex x))"

text \<open>
  \<open>hash[i]\<close> past the end of a string is \<open>undefined\<close>, and \<open>+=\<close> appends it as the
  text \<open>undefined\<close>.
\<close>

definition str_index :: "string \<Rightarrow> nat \<Rightarrow> string" where
  "str_index h i = (if i < length h then [h ! i] else ''undefined'')"

function weave_loop :: "string \<Rightarrow> string \<Rightarrow> string \<Rightarrow> nat \<Rightarrow> nat \<Rightarrow> string \<Rightarrow> string" where
  "weave_loop hash1 hash2 hash3 hashLength i weavedToken =
     (if i < hashLength
      then weave_loop hash1 hash2 hash3 hashLength (Suc i)
             (weavedToken @ str_index hash1 i @ str_index hash2 i @ str_index hash3 i)
      else weavedToken)"
  by pat_completeness auto
termination
  by (relation "measure (\<lambda>(h1, h2, h3, n, i, t). n - i)") auto

declare weave_loop.simps [simp del]

definition createWeave :: "string \<Rightarrow> string \<Rightarrow> string \<Rightarrow> string" where
  "createWeave hash1 hash2 hash3 =
     weave_loop hash1 hash2 hash3 (max (length hash1) (max (length hash2) (length hash3))) 0 []"

definition createSessionToken ::
  "(string \<Rightarrow> string) \<Rightarrow> jsval \<Rightarrow> jsval \<Rightarrow> string option \<Rightarrow> js_error + string" where
  "createSessionToken sha256_hex ip userId username =
     (case hashTokenPart sha256_hex (Some (js_String ip)) of
        Inl e \<Rightarrow> Inl e
      | Inr ipHash \<Rightarrow>
          (case hashTokenPart sha256_hex (Some (js_String userId)) of
             Inl e \<Rightarrow> Inl e
           | Inr userIdHash \<Rightarrow>
               (case hashTokenPart sha256_hex username of
                  Inl e \<Rightarrow> Inl e
                | Inr usernameHash \<Rightarrow> Inr (createWeave ipHash userIdHash usernameHash))))"

section \<open>Usernames, login and account creation (logic.js, db.js)\<close>

text \<open>
  A character of the class \<open>[a-zA-Z0-9_-]\<close>. Every code unit outside ASCII is outside
  the class as well, so a name is modelled by its characters as bytes.
\<close>

definition allowed_char :: "char \<Rightarrow> bool" where
  "allowed_char c =
     (let n = (of_char c :: nat) in
      (97 \<le> n \<and> n \<le> 122) \<or> (65 \<le> n \<and> n \<le> 90) \<or> (48 \<le> n \<and> n \<le> 57)
      \<or> c = CHR ''_'' \<or> c = CHR ''-'')"

text \<open>\<open>/^[a-zA-Z0-9_-]{3,15}$/.test(username)\<close>\<close>

definition usernameRegex_test :: "string \<Rightarrow> bool" where
  "usernameRegex_test u = (list_all allowed_char u \<and> 3 \<le> length u \<and> length u \<le> 15)"

text \<open>\<open>username.replace(/[^a-zA-Z0-9_-]/g, '')\<close>, then the test; \<open>None\<close> is \<open>null\<close>.\<close>

definition validateSanitizeUsername :: "string \<Rightarrow> string option" where
  "validateSanitizeUsername username =
     (let stripped = filter allowed_char username;
          valid = usernameRegex_test stripped
      in if valid then Some stripped else None)"

text \<open>
  The table \<open>users\<close> and the statements db.js executes against it, each with its bind
  parameters, in order. A \<open>null\<close> parameter is SQL \<open>NULL\<close>, which \<open>=\<close> matches with
  no row. The insert is refused with \<open>ER_DUP_ENTRY\<close> when the name is taken, the error
  the \<open>/createAccount\<close> handler looks for.
\<close>

record user_row =
  user_id :: nat
  row_username :: "string option"
  row_password :: string

datatype db_call = GetUserWithUsername "string option" | AddUser "string option" string

datatype db_error = ER_DUP_ENTRY

record user_db =
  users :: "user_row list"
  next_user_id :: nat
  calls :: "db_call list"

text \<open>
  \<open>getUserWithUsername\<close>: \<open>results[0]\<close> of the select, answered when it exists and its
  password is truthy, else \<open>null\<close>.
\<close>

definition db_getUserWithUsername :: "user_db \<Rightarrow> string option \<Rightarrow> user_db \<times> user_row option" where
  "db_getUserWithUsername db username =
     (let results = (case username of
                       None \<Rightarrow> []
                     | Some u \<Rightarrow> filter (\<lambda>r. row_username r = Some u) (users db));
          db' = db\<lparr>calls := calls db @ [GetUserWithUsername username]\<rparr>
      in case results of
           [] \<Rightarrow> (db', None)
         | user # others \<Rightarrow> if row_password user \<noteq> [] then (db', Some user) else (db', None))"

definition db_addUser :: "user_db \<Rightarrow> string option \<Rightarrow> string \<Rightarrow> user_db \<times> (db_error + nat)" where
  "db_addUser db username password =
     (let db' = db\<lparr>calls := calls db @ [AddUser username password]\<rparr> in
      if username \<noteq> None \<and> username \<in> row_username ` set (users db) then (db', Inl ER_DUP_ENTRY)
      else (db'\<lparr>users := users db @ [\<lparr>user_id = next_user_id db, row_username = username,
                                        row_password = password\<rparr>],
                next_user_id := Suc (next_user_id db)\<rparr>, Inr (next_user_id db)))"

text \<open>
  \<open>getUserWithUsernamePassword\<close>. \<open>Inl\<close> carries the text of the \<open>error\<close> object,
  \<open>Inr\<close> the row. \<open>comparePasswords\<close> is \<open>bcrypt.compare\<close>, a parameter.
\<close>

definition getUserWithUsernamePassword ::
  "(string \<Rightarrow> string \<Rightarrow> bool) \<Rightarrow> user_db \<Rightarrow> string \<Rightarrow> string \<Rightarrow> user_db \<times> (string + user_row)" where
  "getUserWithUsernamePassword comparePasswords db username password =
     (if password = [] then (db, Inl ''Please enter a password!'')
      else
        let sanitized = validateSanitizeUsername username;
            (db', response) = db_getUserWithUsername db sanitized
        in case response of
             None \<Rightarrow> (db', Inl ''Username or password incorrect!'')
           | Some row \<Rightarrow>
               if comparePasswords password (row_password row) then (db', Inr row)
               else (db', Inl ''Username or password incorrect!''))"

text \<open>
  \<open>addUser\<close>. \<open>hashString\<close> is \<open>bcrypt.hash(value, 10)\<close>, a parameter. The outer
  \<open>Inl\<close> is the error the insert throws, the inner one the text of the \<open>error\<close> object.
\<close>

definition addUser ::
  "(string \<Rightarrow> string) \<Rightarrow> user_db \<Rightarrow> string \<Rightarrow> string \<Rightarrow> string \<Rightarrow> user_db \<times> (db_error + (string + nat))" where
  "addUser hashString db username password confirmPassword =
     (if password = [] \<or> confirmPassword = [] then (db, Inr (Inl ''Passwords are blank!''))
      else
        let checkMatching = (password = confirmPassword);
            passHash = hashString password
        in if \<not> checkMatching then (db, Inr (Inl ''Passwords are not matching!''))
           else (case db_addUser db (validateSanitizeUsername username) passHash of
                   (db', Inl e) \<Rightarrow> (db', Inl e)
                 | (db', Inr insertId) \<Rightarrow> (db', Inr (Inr insertId))))"

section \<open>Concrete states\<close>

text \<open>
  Users 1 and 2 are connected from the game page of game 7, a game between them that
  \<open>createGame\<close> has just stored: empty board, user 1 to move.
\<close>

definition example_game :: game where
  "example_game = \<lparr>player1_id = Num 1, player2_id = Num 2, current_turn = Num 1,
     game_state = initialBoard, winner_id = Null\<rparr>"

definition example_server :: server where
  "example_server =
     on_connection 20 (Some ''2'') (Some ''7'')
       (on_connection 10 (Some ''1'') (Some ''7'')
          (initial_server\<lparr>games := [7 \<mapsto> example_game], next_game_id := 8\<rparr>))"

text \<open>A game whose column 0 is full, with user 1 to move.\<close>

definition full_column_game :: game where
  "full_column_game = \<lparr>player1_id = Num 1, player2_id = Num 2, current_turn = Num 1,
     game_state = replicate 6 (Str ''red'' # replicate 6 Null), winner_id = Null\<rparr>"

definition full_server :: server where
  "full_server = initial_server\<lparr>games := [3 \<mapsto> full_column_game], next_game_id := 4\<rparr>"


text \<open>A stand-in for the digest function with its one property used: 64 characters.\<close>

definition example_digest :: "string \<Rightarrow> string" where
  "example_digest x = take 64 (x @ replicate 64 (CHR ''0''))"

definition example_users :: user_db where
  "example_users = \<lparr>users = [\<lparr>user_id = 1, row_username = Some ''alice'', row_password = ''h1''\<rparr>],
     next_user_id = 2, calls = []\<rparr>"

section \<open>The column scan\<close>

lemma scan_column_Some:
  "scan_column b c m n = Some (row, b') \<Longrightarrow>
     row < n \<and> falsy (cell_at b row c) \<and> b' = set_cell b row c m
     \<and> (\<forall>r. row < r \<and> r < n \<longrightarrow> \<not> falsy (cell_at b r c))"
proof (induction n)
  case 0
  then show ?case by simp
next
  case (Suc n)
  show ?case
  proof (cases "falsy (cell_at b n c)")
    case True
    with Suc.prems show ?thesis by auto
  next
    case False
    with Suc.prems have "scan_column b c m n = Some (row, b')" by simp
    from Suc.IH[OF this] False show ?thesis
      by (auto simp: less_Suc_eq)
  qed
qed

lemma scan_column_None:
  "(scan_column b c m n = None) = (\<forall>r<n. \<not> falsy (cell_at b r c))"
  by (induction n) (auto simp: less_Suc_eq)

lemma cell_at_grid:
  "\<forall>r\<in>set b. length r = 7 \<Longrightarrow> row < length b \<Longrightarrow> c < 7 \<Longrightarrow> cell_at b row c = b ! row ! c"
  by (simp add: cell_at_def)

lemma set_cell_grid:
  "\<forall>r\<in>set b. length r = 7 \<Longrightarrow> row < length b \<Longrightarrow> c < 7 \<Longrightarrow>
     set_cell b row c v = b[row := (b ! row)[c := v]]"
  by (simp add: set_cell_def array_store_def)

section \<open>The move handler\<close>

lemma game_move_rejected:
  "place_move (games s) gameId playerId col = Inl response \<Longrightarrow>
     game_move s gameId playerId col = (s, Inr response)"
  by (simp add: game_move_def)

lemma game_move_accepted:
  "place_move (games s) gameId playerId col = Inr (g, row, b) \<Longrightarrow>
     game_move s gameId playerId col = (s, Inl (ReferenceError ''board''))"
  by (simp add: game_move_def logic_updateGameState_def db_updateGameState_def)

lemma game_move_sent: "sent (fst (game_move s gameId playerId col)) = sent s"
  by (simp add: game_move_def logic_updateGameState_def db_updateGameState_def
           split: sum.splits prod.splits)

lemma game_move_games: "games (fst (game_move s gameId playerId col)) = games s"
  by (simp add: game_move_def logic_updateGameState_def db_updateGameState_def
           split: sum.splits prod.splits)

lemma example_games: "games example_server = [7 \<mapsto> example_game]"
  by (simp add: example_server_def on_connection_def Let_def initial_server_def)

lemma example_place:
  "place_move (games example_server) 7 (Num 1) 3
     = Inr (example_game, 5, initialBoard[5 := (initialBoard ! 5)[3 := Str ''red'']])"
  by (simp add: example_games place_move_def logic_getGameWithId_def db_getGameWithId_def
        example_game_def initialBoard_def mark_of_def cell_at_def set_cell_def array_store_def
        eval_nat_numeral)

text \<open>
  C1 asks that an accepted move stores the new board and hands the turn to the opponent.
  In the state \<open>example_server\<close> user 1 is to move in game 7 and column 3 is empty, so the
  move is accepted and resolves to row 5. The handler then ends in the ReferenceError
  of \<open>updateGameState\<close>: the stored board is still the empty one and the stored turn is
  still user 1, the player who has just moved.
\<close>

theorem C1_accepted_move_not_persisted:
  "place_move (games example_server) 7 (Num 1) 3
     = Inr (example_game, 5, initialBoard[5 := (initialBoard ! 5)[3 := Str ''red'']])
   \<and> game_move example_server 7 (Num 1) 3 = (example_server, Inl (ReferenceError ''board''))
   \<and> map_option current_turn (games (fst (game_move example_server 7 (Num 1) 3)) 7) = Some (Num 1)
   \<and> map_option game_state (games (fst (game_move example_server 7 (Num 1) 3)) 7) = Some initialBoard"
  using example_place game_move_accepted[OF example_place]
  by (simp add: example_games example_game_def)


lemma mark_truthy: "\<not> falsy (mark_of g playerId)"
  by (simp add: mark_of_def)

lemma place_move_scan:
  "tbl gameId = Some g \<Longrightarrow> current_turn g = playerId \<Longrightarrow> 0 \<le> col \<Longrightarrow> col < 7 \<Longrightarrow>
     place_move tbl gameId playerId col =
       (case scan_column (game_state g) (nat col) (mark_of g playerId) (length (game_state g)) of
          None \<Rightarrow> Inl (Response 400 ''Column is full'')
        | Some (row, board) \<Rightarrow> Inr (g, row, board))"
  by (simp add: place_move_def logic_getGameWithId_def db_getGameWithId_def)

lemma place_move_lowest:
  assumes game: "tbl gameId = Some g" and turn: "current_turn g = playerId"
    and col: "0 \<le> col" "col < 7"
    and rows: "length (game_state g) = 6" and cols: "\<forall>r\<in>set (game_state g). length r = 7"
    and free: "\<exists>row<6. falsy (game_state g ! row ! nat col)"
  shows "\<exists>row<6. falsy (game_state g ! row ! nat col)
           \<and> (\<forall>r. row < r \<and> r < 6 \<longrightarrow> \<not> falsy (game_state g ! r ! nat col))
           \<and> place_move tbl gameId playerId col =
               Inr (g, row, (game_state g)[row := (game_state g ! row)[nat col := mark_of g playerId]])"
proof -
  let ?b = "game_state g" and ?c = "nat col" and ?m = "mark_of g playerId"
  have c7: "?c < 7" using col by simp
  have at: "\<And>r. r < 6 \<Longrightarrow> cell_at ?b r ?c = ?b ! r ! ?c"
    using cell_at_grid[OF cols _ c7] rows by simp
  from free obtain r0 where "r0 < 6" "falsy (cell_at ?b r0 ?c)" using at by auto
  then have "scan_column ?b ?c ?m 6 \<noteq> None" by (auto simp: scan_column_None)
  then obtain row b' where scan: "scan_column ?b ?c ?m 6 = Some (row, b')" by auto
  from scan_column_Some[OF scan]
  have row: "row < 6" and empty: "falsy (cell_at ?b row ?c)" and b': "b' = set_cell ?b row ?c ?m"
    and above: "\<forall>r. row < r \<and> r < 6 \<longrightarrow> \<not> falsy (cell_at ?b r ?c)" by auto
  have "b' = ?b[row := (?b ! row)[?c := ?m]]"
    using b' set_cell_grid[OF cols _ c7, of row ?m] row rows by simp
  moreover have "place_move tbl gameId playerId col = Inr (g, row, b')"
    using place_move_scan[of tbl gameId g playerId col] game turn col scan rows by simp
  ultimately show ?thesis using row empty above at by auto
qed

lemma place_move_full:
  assumes game: "tbl gameId = Some g" and turn: "current_turn g = playerId"
    and col: "0 \<le> col" "col < 7"
    and rows: "length (game_state g) = 6" and cols: "\<forall>r\<in>set (game_state g). length r = 7"
    and full: "\<forall>row<6. \<not> falsy (game_state g ! row ! nat col)"
  shows "place_move tbl gameId playerId col = Inl (Response 400 ''Column is full'')"
proof -
  let ?b = "game_state g" and ?c = "nat col" and ?m = "mark_of g playerId"
  have c7: "?c < 7" using col by simp
  have at: "\<And>r. r < 6 \<Longrightarrow> cell_at ?b r ?c = ?b ! r ! ?c"
    using cell_at_grid[OF cols _ c7] rows by simp
  have "scan_column ?b ?c ?m 6 = None" using full at by (simp add: scan_column_None)
  then show ?thesis using place_move_scan[of tbl gameId g playerId col] game turn col rows by simp
qed

lemma initialBoard_grid: "length initialBoard = 6" "\<forall>r\<in>set initialBoard. length r = 7"
  by (simp_all add: initialBoard_def)

lemma initialBoard_cell: "row < 6 \<Longrightarrow> c < 7 \<Longrightarrow> initialBoard ! row ! c = Null"
  by (simp add: initialBoard_def)

lemma first_drop_row:
  assumes "c < 7"
  shows "scan_column initialBoard c m 6 = Some (5, initialBoard[5 := (initialBoard ! 5)[c := m]])"
proof -
  have "cell_at initialBoard 5 c = Null"
    using assms by (simp add: cell_at_grid initialBoard_grid initialBoard_cell)
  moreover have "set_cell initialBoard 5 c m = initialBoard[5 := (initialBoard ! 5)[c := m]]"
    using assms by (simp add: set_cell_grid initialBoard_grid)
  ultimately show ?thesis by (simp add: eval_nat_numeral)
qed

lemma second_drop_row:
  assumes "c < 7" "\<not> falsy m"
  shows "\<exists>b2. scan_column (initialBoard[5 := (initialBoard ! 5)[c := m]]) c m' 6 = Some (4, b2)"
proof -
  let ?b1 = "initialBoard[5 := (initialBoard ! 5)[c := m]]"
  have grid: "\<forall>r\<in>set ?b1. length r = 7"
    using initialBoard_grid by (auto simp: initialBoard_def dest!: set_update_subset_insert[THEN subsetD])
  have len: "length ?b1 = 6" by (simp add: initialBoard_grid)
  have "cell_at ?b1 5 c = m"
    using assms grid len by (simp add: cell_at_grid initialBoard_def)
  moreover have "cell_at ?b1 4 c = Null"
    using assms grid len by (simp add: cell_at_grid initialBoard_def)
  ultimately show ?thesis using assms by (simp add: eval_nat_numeral)
qed


text \<open>
  C2, amended: on a 6 by 7 board, for a move on a column 0..6 by the player whose turn
  it is: if the column has an empty cell, the move resolves to the lowest empty cell
  (every cell below it is occupied) and the board the handler goes on with differs from
  the stored one in that cell only, which holds the mover's mark; if all six cells of
  the column are occupied, the answer is 400 "Column is full" and nothing changes. On
  the empty board the drop resolves to row 5, and the next drop in the same column, on
  the resulting board, to row 4.
\<close>

theorem C2_gravity_drop:
  assumes game: "games s gameId = Some g" and turn: "current_turn g = playerId"
    and col: "0 \<le> col" "col < 7"
    and rows: "length (game_state g) = 6" and cols: "\<forall>r\<in>set (game_state g). length r = 7"
  shows "((\<exists>row<6. falsy (game_state g ! row ! nat col)) \<longrightarrow>
            (\<exists>row<6. falsy (game_state g ! row ! nat col)
               \<and> (\<forall>r. row < r \<and> r < 6 \<longrightarrow> \<not> falsy (game_state g ! r ! nat col))
               \<and> \<not> falsy (mark_of g playerId)
               \<and> place_move (games s) gameId playerId col =
                   Inr (g, row, (game_state g)[row := (game_state g ! row)[nat col := mark_of g playerId]])))
       \<and> ((\<forall>row<6. \<not> falsy (game_state g ! row ! nat col)) \<longrightarrow>
            game_move s gameId playerId col = (s, Inr (Response 400 ''Column is full'')))
       \<and> (game_state g = initialBoard \<longrightarrow>
            (\<exists>b1 b2. place_move (games s) gameId playerId col = Inr (g, 5, b1)
               \<and> place_move ((games s)(gameId \<mapsto> g\<lparr>game_state := b1, current_turn := nextTurn_of g playerId\<rparr>))
                    gameId (nextTurn_of g playerId) col
                  = Inr (g\<lparr>game_state := b1, current_turn := nextTurn_of g playerId\<rparr>, 4, b2)))"
proof (intro conjI impI)
  assume "\<exists>row<6. falsy (game_state g ! row ! nat col)"
  from place_move_lowest[of "games s" gameId g playerId col, OF game turn col rows cols this]
  show "\<exists>row<6. falsy (game_state g ! row ! nat col)
               \<and> (\<forall>r. row < r \<and> r < 6 \<longrightarrow> \<not> falsy (game_state g ! r ! nat col))
               \<and> \<not> falsy (mark_of g playerId)
               \<and> place_move (games s) gameId playerId col =
                   Inr (g, row, (game_state g)[row := (game_state g ! row)[nat col := mark_of g playerId]])"
    using mark_truthy by blast
next
  assume "\<forall>row<6. \<not> falsy (game_state g ! row ! nat col)"
  from place_move_full[of "games s" gameId g playerId col, OF game turn col rows cols this]
  show "game_move s gameId playerId col = (s, Inr (Response 400 ''Column is full''))"
    by (rule game_move_rejected)
next
  assume fresh: "game_state g = initialBoard"
  let ?c = "nat col" and ?m = "mark_of g playerId" and ?p2 = "nextTurn_of g playerId"
  let ?b1 = "initialBoard[5 := (initialBoard ! 5)[?c := ?m]]"
  let ?g2 = "g\<lparr>game_state := ?b1, current_turn := ?p2\<rparr>"
  have c7: "?c < 7" using col by simp
  have first: "place_move (games s) gameId playerId col = Inr (g, 5, ?b1)"
    using place_move_scan[of "games s" gameId g playerId col] game turn col
      first_drop_row[OF c7, of ?m] fresh
    by (simp add: initialBoard_grid)
  obtain b2 where scan2: "scan_column ?b1 ?c (mark_of ?g2 ?p2) 6 = Some (4, b2)"
    using second_drop_row[OF c7 mark_truthy] by blast
  have "place_move ((games s)(gameId \<mapsto> ?g2)) gameId ?p2 col = Inr (?g2, 4, b2)"
    using place_move_scan[of "(games s)(gameId \<mapsto> ?g2)" gameId ?g2 ?p2 col] col scan2
    by (simp add: initialBoard_grid)
  with first show "\<exists>b1 b2. place_move (games s) gameId playerId col = Inr (g, 5, b1)
               \<and> place_move ((games s)(gameId \<mapsto> g\<lparr>game_state := b1, current_turn := nextTurn_of g playerId\<rparr>))
                    gameId (nextTurn_of g playerId) col
                  = Inr (g\<lparr>game_state := b1, current_turn := nextTurn_of g playerId\<rparr>, 4, b2)"
    by blast
qed

theorem C2_gravity_drop_witness:
  "games example_server 7 = Some example_game \<and> current_turn example_game = Num 1
   \<and> falsy (game_state example_game ! 5 ! nat 3)
   \<and> (\<exists>row<6. place_move (games example_server) 7 (Num 1) 3 =
         Inr (example_game, row,
              (game_state example_game)[row := (game_state example_game ! row)[nat 3 := mark_of example_game (Num 1)]]))
   \<and> (\<exists>b1 b2. place_move (games example_server) 7 (Num 1) 3 = Inr (example_game, 5, b1)
         \<and> place_move ((games example_server)(7 \<mapsto> example_game\<lparr>game_state := b1, current_turn := nextTurn_of example_game (Num 1)\<rparr>))
              7 (nextTurn_of example_game (Num 1)) 3
            = Inr (example_game\<lparr>game_state := b1, current_turn := nextTurn_of example_game (Num 1)\<rparr>, 4, b2))
   \<and> games full_server 3 = Some full_column_game
   \<and> game_move full_server 3 (Num 1) 0 = (full_server, Inr (Response 400 ''Column is full''))"
proof -
  have g1: "games example_server 7 = Some example_game" by (simp add: example_games)
  have t1: "current_turn example_game = Num 1" by (simp add: example_game_def)
  have r1: "length (game_state example_game) = 6"
    and c1: "\<forall>r\<in>set (game_state example_game). length r = 7"
    and i1: "game_state example_game = initialBoard"
    by (simp_all add: example_game_def initialBoard_def)
  have e1: "falsy (game_state example_game ! 5 ! nat 3)"
    by (simp add: example_game_def initialBoard_def)
  then have f1: "\<exists>row<6. falsy (game_state example_game ! row ! nat 3)"
    by (intro exI[of _ 5]) simp
  have g2: "games full_server 3 = Some full_column_game" by (simp add: full_server_def)
  have t2: "current_turn full_column_game = Num 1" by (simp add: full_column_game_def)
  have r2: "length (game_state full_column_game) = 6"
    and c2: "\<forall>r\<in>set (game_state full_column_game). length r = 7"
    by (simp_all add: full_column_game_def)
  have f2: "\<forall>row<6. \<not> falsy (game_state full_column_game ! row ! nat 0)"
    by (simp add: full_column_game_def)
  have z: "(0::int) \<le> 3" "(3::int) < 7" "(0::int) \<le> 0" "(0::int) < 7" by simp_all
  from C2_gravity_drop[OF g1 t1 z(1,2) r1 c1] C2_gravity_drop[OF g2 t2 z(3,4) r2 c2]
    g1 t1 e1 f1 i1 g2 f2
  show ?thesis by blast
qed

text \<open>
  C2 as stated fails for a request by the player who is not to move: column 0 of game 3
  is full, user 2 is not to move, and the request is answered "Not your turn", not
  "Column is full".
\<close>

theorem C2_counterexample:
  "games full_server 3 = Some full_column_game
   \<and> \<not> falsy (cell_at (game_state full_column_game) 0 0)
   \<and> \<not> falsy (cell_at (game_state full_column_game) 1 0)
   \<and> \<not> falsy (cell_at (game_state full_column_game) 2 0)
   \<and> \<not> falsy (cell_at (game_state full_column_game) 3 0)
   \<and> \<not> falsy (cell_at (game_state full_column_game) 4 0)
   \<and> \<not> falsy (cell_at (game_state full_column_game) 5 0)
   \<and> current_turn full_column_game \<noteq> Num 2
   \<and> game_move full_server 3 (Num 2) 0 = (full_server, Inr (Response 400 ''Not your turn''))
   \<and> game_move full_server 3 (Num 2) 0 \<noteq> (full_server, Inr (Response 400 ''Column is full''))"
  by (simp add: full_server_def full_column_game_def game_move_def place_move_def
        logic_getGameWithId_def db_getGameWithId_def cell_at_def eval_nat_numeral)

subsection \<open>Any request body\<close>

text \<open>
  On a column that is an integer number the handler for any body is the handler above.
  Neither changes the state, whatever the request.
\<close>

lemma scan_property_index:
  "scan_property P board (Index c) mark n = Inr (scan_column board c mark n)"
  by (induction n) (simp_all add: cell_at_def set_cell_def)

lemma col_out_of_range_int:
  "col_out_of_range P (JNumber (Finite (of_int n))) = (n < 0 \<or> 7 \<le> n)"
  by (simp add: col_out_of_range_def)

lemma property_key_int:
  "0 \<le> n \<Longrightarrow> n < 7 \<Longrightarrow> property_key (JNumber (Finite (of_int n))) = Index (nat n)"
  by simp

lemma game_move_body_int:
  "game_move_body P s gameId playerId (JNumber (Finite (of_int col)))
     = game_move s gameId playerId col"
proof (cases "col < 0 \<or> 7 \<le> col")
  case True
  then show ?thesis
    by (auto simp: game_move_body_def game_move_def place_move_def col_out_of_range_int)
next
  case False
  then have key: "property_key (JNumber (Finite (of_int col))) = Index (nat col)"
    using property_key_int[of col] by simp
  from False show ?thesis
    unfolding game_move_body_def game_move_def place_move_def col_out_of_range_int key
      scan_property_index
    by (auto split: option.splits)
qed

lemma game_move_body_state: "fst (game_move_body P s gameId playerId col) = s"
  by (simp add: game_move_body_def logic_updateGameState_def db_updateGameState_def
           split: option.splits sum.splits prod.splits)


lemma property_key_examples:
  "property_key (JString ''3'') = Index 3"
  "property_key (JString ''06'') = Name ''06''"
  "property_key (JString ''length'') = Name ''length''"
  by (simp_all add: string_index_def is_digit_def decimal_value_def)

lemma property_key_fraction: "property_key (JNumber (Finite (5 / 2))) = NumberName"
proof -
  have "\<lfloor>5 / 2 :: rat\<rfloor> = 2" by (simp add: floor_eq_iff)
  then show ?thesis by simp
qed

lemma game_move_wrong_player:
  assumes "games s gameId = Some g" and "current_turn g \<noteq> playerId"
  shows "game_move s gameId playerId col =
           (s, Inr (Response 400 (if col < 0 \<or> 7 \<le> col then ''Invalid column'' else ''Not your turn'')))"
  using assms
  by (simp add: game_move_def place_move_def logic_getGameWithId_def db_getGameWithId_def)





text \<open>
  C5 asks that after an accepted move both registered participants are sent the move.
  In \<open>example_server\<close> both players of game 7 are registered and the move of user 1 in
  column 3 is accepted, yet nothing is sent: the handler has thrown before its sends.
\<close>

theorem C5_accepted_move_not_notified:
  "userSockets example_server (Str ''1'') = Some 10 \<and> userSockets example_server (Str ''2'') = Some 20
   \<and> place_move (games example_server) 7 (Num 1) 3
       = Inr (example_game, 5, initialBoard[5 := (initialBoard ! 5)[3 := Str ''red'']])
   \<and> sent example_server = []
   \<and> sent (fst (game_move example_server 7 (Num 1) 3)) = []
   \<and> snd (game_move example_server 7 (Num 1) 3) = Inl (ReferenceError ''board'')"
proof -
  have "userSockets example_server (Str ''1'') = Some 10"
    "userSockets example_server (Str ''2'') = Some 20" "sent example_server = []"
    by (simp_all add: example_server_def on_connection_def Let_def initial_server_def)
  then show ?thesis
    using example_place game_move_accepted[OF example_place] by simp
qed

section \<open>The session token\<close>

lemma weave_loop_equal_lengths:
  "length hash1 = n \<Longrightarrow> length hash2 = n \<Longrightarrow> length hash3 = n \<Longrightarrow> i \<le> n \<Longrightarrow>
     weave_loop hash1 hash2 hash3 n i acc =
       acc @ concat (map (\<lambda>k. [hash1 ! k, hash2 ! k, hash3 ! k]) [i..<n])"
proof (induction hash1 hash2 hash3 n i acc rule: weave_loop.induct)
  case (1 hash1 hash2 hash3 hashLength i weavedToken)
  show ?case
  proof (cases "i < hashLength")
    case True
    then have "weave_loop hash1 hash2 hash3 hashLength i weavedToken =
        weave_loop hash1 hash2 hash3 hashLength (Suc i)
          (weavedToken @ str_index hash1 i @ str_index hash2 i @ str_index hash3 i)"
      by (subst weave_loop.simps) simp
    also have "\<dots> = (weavedToken @ str_index hash1 i @ str_index hash2 i @ str_index hash3 i)
        @ concat (map (\<lambda>k. [hash1 ! k, hash2 ! k, hash3 ! k]) [Suc i..<hashLength])"
      using "1.IH"[OF True] "1.prems" True by simp
    also have "\<dots> = weavedToken @ concat (map (\<lambda>k. [hash1 ! k, hash2 ! k, hash3 ! k]) [i..<hashLength])"
      using True "1.prems" by (simp add: str_index_def upt_conv_Cons)
    finally show ?thesis .
  next
    case False
    with "1.prems" show ?thesis by (subst weave_loop.simps) simp
  qed
qed

lemma triples_length:
  "length (concat (map (\<lambda>k. [f k, g k, h k]) [0..<n])) = 3 * n"
  by (induction n) simp_all

lemma triples_nth:
  "i < n \<Longrightarrow>
     concat (map (\<lambda>k. [f k, g k, h k]) [0..<n]) ! (3 * i) = f i
   \<and> concat (map (\<lambda>k. [f k, g k, h k]) [0..<n]) ! (3 * i + 1) = g i
   \<and> concat (map (\<lambda>k. [f k, g k, h k]) [0..<n]) ! (3 * i + 2) = h i"
proof (induction n)
  case 0
  then show ?case by simp
next
  case (Suc n)
  show ?case
  proof (cases "i < n")
    case True
    with Suc.IH show ?thesis by (simp add: nth_append triples_length)
  next
    case False
    with Suc.prems have "i = n" by simp
    then show ?thesis by (simp add: nth_append triples_length)
  qed
qed

lemma createWeave_equal_lengths:
  "length hash1 = n \<Longrightarrow> length hash2 = n \<Longrightarrow> length hash3 = n \<Longrightarrow>
     createWeave hash1 hash2 hash3 = concat (map (\<lambda>k. [hash1 ! k, hash2 ! k, hash3 ! k]) [0..<n])"
  by (simp add: createWeave_def weave_loop_equal_lengths)

text \<open>
  C4: with a digest function that answers 64 characters for every input, the token of
  \<open>(ip, userId, username)\<close> is returned, has 192 characters, and for every i below 64
  holds character i of the digest of \<open>String(ip)\<close> at position 3i, of the digest of
  \<open>String(userId)\<close> at 3i+1 and of the digest of the username at 3i+2. Its length
  shows that no index ran past a digest, which would have appended the text
  \<open>undefined\<close>. The token is a function of the three inputs and the digest function
  alone, so equal inputs give equal tokens.
\<close>

theorem C4_session_token:
  assumes digest: "\<forall>x. length (sha256_hex x) = 64"
  shows "\<exists>token. createSessionToken sha256_hex ip userId (Some username) = Inr token
           \<and> length token = 192
           \<and> (\<forall>i<64. token ! (3 * i) = sha256_hex (js_String ip) ! i
                     \<and> token ! (3 * i + 1) = sha256_hex (js_String userId) ! i
                     \<and> token ! (3 * i + 2) = sha256_hex username ! i)"
proof -
  let ?h1 = "sha256_hex (js_String ip)" and ?h2 = "sha256_hex (js_String userId)"
    and ?h3 = "sha256_hex username"
  let ?t = "concat (map (\<lambda>k. [?h1 ! k, ?h2 ! k, ?h3 ! k]) [0..<64])"
  have "createWeave ?h1 ?h2 ?h3 = ?t"
    using digest by (simp add: createWeave_equal_lengths)
  then have "createSessionToken sha256_hex ip userId (Some username) = Inr ?t"
    by (simp add: createSessionToken_def hashTokenPart_def)
  moreover have "length ?t = 192" by (simp add: triples_length)
  moreover have "\<forall>i<64. ?t ! (3 * i) = ?h1 ! i \<and> ?t ! (3 * i + 1) = ?h2 ! i \<and> ?t ! (3 * i + 2) = ?h3 ! i"
    using triples_nth[of _ 64 "\<lambda>k. ?h1 ! k" "\<lambda>k. ?h2 ! k" "\<lambda>k. ?h3 ! k"] by blast
  ultimately show ?thesis by blast
qed

theorem C4_session_token_witness:
  "\<exists>token. createSessionToken example_digest (Str ''127.0.0.1'') (Num 5) (Some ''alice'') = Inr token
      \<and> length token = 192
      \<and> token ! 3 = example_digest ''127.0.0.1'' ! 1
      \<and> token ! 4 = example_digest (js_String (Num 5)) ! 1
      \<and> token ! 5 = example_digest ''alice'' ! 1"
proof -
  have d: "\<forall>x. length (example_digest x) = 64" by (auto simp: example_digest_def)
  from C4_session_token[OF d, of "Str ''127.0.0.1''" "Num 5" "''alice''"]
  obtain token where t: "createSessionToken example_digest (Str ''127.0.0.1'') (Num 5) (Some ''alice'') = Inr token"
    "length token = 192"
    "\<forall>i<64. token ! (3 * i) = example_digest (js_String (Str ''127.0.0.1'')) ! i
                     \<and> token ! (3 * i + 1) = example_digest (js_String (Num 5)) ! i
                     \<and> token ! (3 * i + 2) = example_digest ''alice'' ! i" by blast
  from t(3)[rule_format, of 1] have "token ! 3 = example_digest ''127.0.0.1'' ! 1
      \<and> token ! 4 = example_digest (js_String (Num 5)) ! 1
      \<and> token ! 5 = example_digest ''alice'' ! 1" by simp
  with t(1,2) show ?thesis by blast
qed


section \<open>Closing a connection\<close>

lemma close_rooms_keys: "fst ` set (close_rooms ws m) \<subseteq> fst ` set m"
  by (induction ws m rule: close_rooms.induct) auto

lemma close_rooms_members:
  "(room, clients) \<in> set (close_rooms ws m) \<Longrightarrow> ws \<notin> set clients"
  by (induction ws m rule: close_rooms.induct) (auto simp: set_delete_def split: if_splits)

lemma close_rooms_absent:
  "map_of m room = None \<Longrightarrow> map_of (close_rooms ws m) room = None"
  using close_rooms_keys[of ws m] by (auto simp: map_of_eq_None_iff)

lemma close_rooms_present:
  "distinct (map fst m) \<Longrightarrow> map_of m room = Some clients \<Longrightarrow>
     map_of (close_rooms ws m) room =
       (if ws \<in> set clients \<and> room \<noteq> lobby \<and> removeAll ws clients = [] then None
        else Some (removeAll ws clients))"
proof (induction ws m rule: close_rooms.induct)
  case (1 ws)
  then show ?case by simp
next
  case (2 ws r cs rest)
  show ?case
  proof (cases "r = room")
    case True
    with "2.prems" have cs: "cs = clients" and "map_of rest room = None"
      by (auto simp: map_of_eq_None_iff)
    then have "map_of (close_rooms ws rest) room = None" by (simp add: close_rooms_absent)
    with True cs show ?thesis by (simp add: set_delete_def)
  next
    case False
    with "2.prems" have "distinct (map fst rest)" "map_of rest room = Some clients" by auto
    with "2.IH" False show ?thesis by (auto simp: set_delete_def)
  qed
qed

text \<open>
  C7: the close handler, in its one step, removes the user id from the registry and
  leaves the connection in no room. A room that held the connection is deleted when it
  is not the lobby and the connection was its only member; every other room stays,
  without the connection; rooms are not created; the lobby stays. The keys of the room
  map are distinct, as those of a \<open>Map\<close> are.
\<close>

theorem C7_close_cleanup:
  assumes keys: "distinct (map fst (rooms s))"
  shows "userSockets (on_close ws userId s) userId = None
       \<and> (\<forall>(room, clients) \<in> set (rooms (on_close ws userId s)). ws \<notin> set clients)
       \<and> (\<forall>room clients. map_of (rooms s) room = Some clients \<longrightarrow>
             map_of (rooms (on_close ws userId s)) room =
               (if ws \<in> set clients \<and> room \<noteq> lobby \<and> removeAll ws clients = [] then None
                else Some (removeAll ws clients)))
       \<and> (\<forall>room. map_of (rooms s) room = None \<longrightarrow> map_of (rooms (on_close ws userId s)) room = None)
       \<and> (map_has (rooms s) lobby \<longrightarrow> map_has (rooms (on_close ws userId s)) lobby)"
proof (intro conjI)
  show "userSockets (on_close ws userId s) userId = None" by (simp add: on_close_def)
  show "\<forall>(room, clients) \<in> set (rooms (on_close ws userId s)). ws \<notin> set clients"
    by (auto simp: on_close_def dest: close_rooms_members)
  show present: "\<forall>room clients. map_of (rooms s) room = Some clients \<longrightarrow>
             map_of (rooms (on_close ws userId s)) room =
               (if ws \<in> set clients \<and> room \<noteq> lobby \<and> removeAll ws clients = [] then None
                else Some (removeAll ws clients))"
    using close_rooms_present[OF keys] by (simp add: on_close_def)
  show "\<forall>room. map_of (rooms s) room = None \<longrightarrow> map_of (rooms (on_close ws userId s)) room = None"
    by (simp add: on_close_def close_rooms_absent)
  show "map_has (rooms s) lobby \<longrightarrow> map_has (rooms (on_close ws userId s)) lobby"
    using present by (auto simp: map_has_def)
qed

lemma example_rooms: "rooms example_server = [(lobby, []), (Str ''7'', [10, 20])]"
  by (simp add: example_server_def on_connection_def Let_def initial_server_def room_join_def
        room_leave_def map_has_def map_modify_def set_add_def set_delete_def lobby_def)

theorem C7_close_cleanup_witness:
  "distinct (map fst (rooms (on_close 10 (Str ''1'') example_server)))
   \<and> map_of (rooms (on_close 10 (Str ''1'') example_server)) (Str ''7'') = Some [20]
   \<and> userSockets (on_close 20 (Str ''2'') (on_close 10 (Str ''1'') example_server)) (Str ''2'') = None
   \<and> map_of (rooms (on_close 20 (Str ''2'') (on_close 10 (Str ''1'') example_server))) (Str ''7'') = None
   \<and> map_has (rooms (on_close 20 (Str ''2'') (on_close 10 (Str ''1'') example_server))) lobby"
proof -
  let ?s = "on_close 10 (Str ''1'') example_server"
  have r: "rooms ?s = [(lobby, []), (Str ''7'', [20])]"
    by (simp add: on_close_def example_rooms set_delete_def lobby_def)
  have d: "distinct (map fst (rooms ?s))" by (simp add: r lobby_def)
  have m: "map_of (rooms ?s) (Str ''7'') = Some [20]" by (simp add: r lobby_def)
  have l: "map_has (rooms ?s) lobby" by (simp add: r map_has_def)
  from C7_close_cleanup[OF d, of 20 "Str ''2''"] have
    u: "userSockets (on_close 20 (Str ''2'') ?s) (Str ''2'') = None"
    and p: "\<forall>room clients. map_of (rooms ?s) room = Some clients \<longrightarrow>
             map_of (rooms (on_close 20 (Str ''2'') ?s)) room =
               (if 20 \<in> set clients \<and> room \<noteq> lobby \<and> removeAll 20 clients = [] then None
                else Some (removeAll 20 clients))"
    and k: "map_has (rooms ?s) lobby \<longrightarrow> map_has (rooms (on_close 20 (Str ''2'') ?s)) lobby"
    by blast+
  from p[rule_format, OF m] have "map_of (rooms (on_close 20 (Str ''2'') ?s)) (Str ''7'') = None"
    by (simp add: lobby_def)
  with d m u k l show ?thesis by blast
qed

section \<open>The message handler\<close>

lemma example_sent: "sent example_server = []"
  by (simp add: example_server_def on_connection_def Let_def initial_server_def)

lemma example_challenges: "challenges example_server = Map.empty"
  by (simp add: example_server_def on_connection_def Let_def initial_server_def)

text \<open>
  C6 asks that a room other than the lobby is gone once its only member has left.
  Connection 1 joins \<open>game42\<close>, a room that did not exist, and leaves it again with no
  other member: the room is still in the map, with no members. Only the close handler
  deletes empty rooms.
\<close>

theorem C6_left_room_still_present:
  "\<not> map_has (rooms (on_connection 1 (Some ''1'') None initial_server)) (Str ''game42'')
   \<and> rooms (on_message 1 (Str ''1'') (JsonObj [(''action'', Str ''join''), (''room'', Str ''game42'')])
              (on_connection 1 (Some ''1'') None initial_server))
       = [(lobby, [1]), (Str ''game42'', [1])]
   \<and> rooms (on_message 1 (Str ''1'') (JsonObj [(''action'', Str ''leave''), (''room'', Str ''game42'')])
        (on_message 1 (Str ''1'') (JsonObj [(''action'', Str ''join''), (''room'', Str ''game42'')])
              (on_connection 1 (Some ''1'') None initial_server)))
       = [(lobby, [1]), (Str ''game42'', [])]
   \<and> map_has (rooms (on_message 1 (Str ''1'') (JsonObj [(''action'', Str ''leave''), (''room'', Str ''game42'')])
        (on_message 1 (Str ''1'') (JsonObj [(''action'', Str ''join''), (''room'', Str ''game42'')])
              (on_connection 1 (Some ''1'') None initial_server)))) (Str ''game42'')"
  by (simp add: on_message_def dispatch_def field_def on_connection_def Let_def initial_server_def
        room_join_def room_leave_def map_has_def map_modify_def set_add_def set_delete_def lobby_def)

text \<open>
  C8 asks that "Invalid message format" is sent only for a payload that fails to decode.
  A well-formed \<open>gameChat\<close> message and a well-formed \<open>gameMove\<close> message are
  both answered with exactly that error, by the ReferenceError of \<open>gameRooms\<close>.
\<close>

theorem C8_game_actions_invalid_format:
  "sent (on_message 10 (Str ''1'')
           (JsonObj [(''action'', Str ''gameChat''), (''gameId'', Str ''7''),
                     (''sender'', Str ''alice''), (''message'', Str ''hi'')]) example_server)
     = [(10, [(''error'', Str ''Invalid message format'')])]
   \<and> sent (on_message 10 (Str ''1'')
           (JsonObj [(''action'', Str ''gameMove''), (''gmId'', Str ''7''), (''col'', Num 3),
                     (''row'', Num 5), (''playerId'', Num 1)]) example_server)
     = [(10, [(''error'', Str ''Invalid message format'')])]"
  by (simp add: on_message_def dispatch_def field_def send_def example_sent)

text \<open>
  C9 asks for a "challenge not found" error when no challenge has the id. No challenge
  99 is stored; the decliner is sent "Failed to decline challenge", the answer of the
  inner \<open>catch\<close>, and nothing else is sent.
\<close>

theorem C9_unknown_challenge_generic_error:
  "challenges example_server (Num 99) = None
   \<and> sent (on_message 10 (Str ''1'')
           (JsonObj [(''action'', Str ''declineChallenge''), (''challengeId'', Num 99)]) example_server)
     = [(10, [(''error'', Str ''Failed to decline challenge'')])]"
  by (simp add: on_message_def dispatch_def field_def send_def example_sent example_challenges
        decline_challenge_def decline_try_def logic_getChallengeWithId_def db_getChallengeWithId_def)

section \<open>Usernames on their way to the database\<close>

lemma validateSanitizeUsername_eq:
  "validateSanitizeUsername username =
     (if 3 \<le> length (filter allowed_char username) \<and> length (filter allowed_char username) \<le> 15
      then Some (filter allowed_char username) else None)"
  by (simp add: validateSanitizeUsername_def usernameRegex_test_def Let_def list_all_iff)

lemma login_calls:
  "password \<noteq> [] \<Longrightarrow>
     calls (fst (getUserWithUsernamePassword cmp db username password))
       = calls db @ [GetUserWithUsername (validateSanitizeUsername username)]"
  by (simp add: getUserWithUsernamePassword_def db_getUserWithUsername_def Let_def
           split: option.splits list.splits)

lemma login_null:
  "password \<noteq> [] \<Longrightarrow> validateSanitizeUsername username = None \<Longrightarrow>
     snd (getUserWithUsernamePassword cmp db username password) = Inl ''Username or password incorrect!''"
  by (simp add: getUserWithUsernamePassword_def db_getUserWithUsername_def Let_def)

lemma login_no_password:
  "getUserWithUsernamePassword cmp db username [] = (db, Inl ''Please enter a password!'')"
  by (simp add: getUserWithUsernamePassword_def)

lemma addUser_calls:
  "password \<noteq> [] \<Longrightarrow>
     calls (fst (addUser hashString db username password password))
       = calls db @ [AddUser (validateSanitizeUsername username) (hashString password)]"
  by (simp add: addUser_def db_addUser_def Let_def)

lemma addUser_refused:
  "password = [] \<or> confirmPassword = [] \<or> confirmPassword \<noteq> password \<Longrightarrow>
     fst (addUser hashString db username password confirmPassword) = db"
  by (auto simp: addUser_def Let_def)

text \<open>
  C10: the sanitized name is the name without the characters outside
  \<open>[a-zA-Z0-9_-]\<close> when 3 to 15 characters are left, and \<open>null\<close> otherwise. A
  name reaches the database through a login when a password is given, and through an
  account creation when the two passwords are non-empty and equal. Such a login queries
  the database once, with the sanitized name, and answers
  "Username or password incorrect!" when that is \<open>null\<close>; such an account creation
  inserts once, with the sanitized name. Every other login or account creation returns
  before it touches the database. So the database sees the sanitized name only.
\<close>

theorem C10_username_sanitized:
  "validateSanitizeUsername username =
     (if 3 \<le> length (filter allowed_char username) \<and> length (filter allowed_char username) \<le> 15
      then Some (filter allowed_char username) else None)
   \<and> (password \<noteq> [] \<longrightarrow>
        calls (fst (getUserWithUsernamePassword cmp db username password))
          = calls db @ [GetUserWithUsername (validateSanitizeUsername username)]
        \<and> (validateSanitizeUsername username = None \<longrightarrow>
             snd (getUserWithUsernamePassword cmp db username password)
               = Inl ''Username or password incorrect!''))
   \<and> (password = [] \<longrightarrow> fst (getUserWithUsernamePassword cmp db username password) = db)
   \<and> (password \<noteq> [] \<and> confirmPassword = password \<longrightarrow>
        calls (fst (addUser hashString db username password confirmPassword))
          = calls db @ [AddUser (validateSanitizeUsername username) (hashString password)])
   \<and> (password = [] \<or> confirmPassword = [] \<or> confirmPassword \<noteq> password \<longrightarrow>
        fst (addUser hashString db username password confirmPassword) = db)"
  using validateSanitizeUsername_eq[of username] login_calls[of password cmp db username]
    login_null[of password username cmp db] login_no_password[of cmp db username]
    addUser_calls[of password hashString db username]
    addUser_refused[of password confirmPassword hashString db username]
  by (intro conjI impI) simp_all

lemma sanitize_short: "validateSanitizeUsername ''a!b'' = None"
  by (simp add: validateSanitizeUsername_def usernameRegex_test_def allowed_char_def Let_def)

lemma sanitize_good: "validateSanitizeUsername ''al ice;2'' = Some ''alice2''"
  by (simp add: validateSanitizeUsername_def usernameRegex_test_def allowed_char_def Let_def)

theorem C10_username_sanitized_witness:
  "validateSanitizeUsername ''a!b'' = None
   \<and> calls (fst (getUserWithUsernamePassword (\<lambda>p h. True) example_users ''a!b'' ''pw''))
       = [GetUserWithUsername None]
   \<and> snd (getUserWithUsernamePassword (\<lambda>p h. True) example_users ''a!b'' ''pw'')
       = Inl ''Username or password incorrect!''
   \<and> validateSanitizeUsername ''al ice;2'' = Some ''alice2''
   \<and> calls (fst (addUser (\<lambda>p. p) example_users ''al ice;2'' ''pw'' ''pw''))
       = [AddUser (Some ''alice2'') ''pw'']"
  using C10_username_sanitized[of "''a!b''" "''pw''" "\<lambda>p h. True" example_users "''pw''" "\<lambda>p. p"]
    C10_username_sanitized[of "''al ice;2''" "''pw''" "\<lambda>p h. True" example_users "''pw''" "\<lambda>p. p"]
    sanitize_short sanitize_good
  by (simp add: example_users_def)

section \<open>The message handler, for every state\<close>

text \<open>
  The three evaluations above do not depend on the state chosen: a room joined and left
  is still there, the two game actions always end in the catch, and an unknown
  challenge always gets the answer of the inner catch.
\<close>

lemma map_has_keys: "map_has m k = (k \<in> set (map fst m))"
  by (simp add: map_has_def map_of_eq_None_iff)

lemma map_modify_keys: "map fst (map_modify k f m) = map fst m"
  by (induction m) (auto simp: map_modify_def)

lemma map_set_keys: "set (map fst (map_set k v m)) = insert k (set (map fst m))"
proof (induction m)
  case Nil
  show ?case by simp
next
  case (Cons p m)
  obtain k' v' where p: "p = (k', v')" by (cases p)
  show ?case using Cons.IH by (cases "k' = k") (auto simp: p)
qed

lemma map_modify_has: "map_has (map_modify k f m) k' = map_has m k'"
  by (simp add: map_has_keys map_modify_keys)

lemma map_set_has: "map_has (map_set k v m) k' = (k' = k \<or> map_has m k')"
  using map_set_keys[of k v m] by (auto simp: map_has_keys)

lemma room_join_has: "map_has (room_join room ws m) room"
  by (simp add: room_join_def map_modify_has map_set_has)

lemma room_leave_has: "map_has (room_leave room ws m) room' = map_has m room'"
  by (simp add: room_leave_def map_modify_has)

lemma leave_keeps_room:
  "field joinData ''action'' = Str ''join'' \<Longrightarrow> field joinData ''room'' = room \<Longrightarrow>
   field leaveData ''action'' = Str ''leave'' \<Longrightarrow> field leaveData ''room'' = room \<Longrightarrow>
     map_has (rooms (on_message ws userId (JsonObj leaveData)
                       (on_message ws userId (JsonObj joinData) s))) room"
  by (simp add: on_message_def dispatch_def room_join_has room_leave_has)

lemma game_actions_invalid_format:
  "field data ''action'' = Str ''gameChat'' \<or> field data ''action'' = Str ''gameMove'' \<Longrightarrow>
     on_message ws userId (JsonObj data) s = send ws [(''error'', Str ''Invalid message format'')] s"
  by (auto simp: on_message_def dispatch_def)

lemma decline_unknown_challenge:
  "field data ''action'' = Str ''declineChallenge'' \<Longrightarrow> \<not> falsy (field data ''challengeId'') \<Longrightarrow>
   challenges s (field data ''challengeId'') = None \<Longrightarrow>
     on_message ws userId (JsonObj data) s = send ws [(''error'', Str ''Failed to decline challenge'')] s"
  by (simp add: on_message_def dispatch_def decline_challenge_def decline_try_def
        logic_getChallengeWithId_def db_getChallengeWithId_def)

section \<open>Invariants of the room map\<close>

text \<open>
  The room map of the start has distinct keys and holds the lobby, and the connection,
  message and close handlers keep both: the hypothesis on the keys in the cleanup
  theorem holds in every state the server reaches, and the lobby is never deleted.
\<close>

lemma rooms_send: "rooms (send c obj s) = rooms s"
  by (simp add: send_def)

lemma rooms_broadcast: "rooms (broadcast cs obj s) = rooms s"
  by (induction cs obj s rule: broadcast.induct) (simp_all add: rooms_send)

lemma rooms_decline_challenge: "rooms (decline_challenge ws userId data s) = rooms s"
  by (simp add: decline_challenge_def decline_try_def Let_def rooms_send
           split: option.splits)

lemma rooms_start_game: "rooms (fst (start_game data s)) = rooms s"
  by (simp add: start_game_def logic_createGame_def Let_def rooms_send split: option.splits)

lemma rooms_start_game_caught:
  "rooms (case start_game data s of (s', Inl err) \<Rightarrow> send ws obj s' | (s', Inr u) \<Rightarrow> s')
     = rooms s"
  using rooms_start_game[of data s]
  by (cases "start_game data s") (auto simp: rooms_send split: sum.splits)

lemma rooms_send_challenge: "rooms (send_challenge ws userId data s) = rooms s"
  by (simp add: send_challenge_def rooms_send split: option.splits)

lemma rooms_room_message: "rooms (room_message ws data s) = rooms s"
  by (simp add: room_message_def rooms_send rooms_broadcast split: option.splits)

lemma map_set_distinct: "distinct (map fst m) \<Longrightarrow> distinct (map fst (map_set k v m))"
proof (induction m)
  case Nil
  show ?case by simp
next
  case (Cons p m)
  obtain k' v' where p: "p = (k', v')" by (cases p)
  show ?case
  proof (cases "k' = k")
    case True
    with Cons.prems show ?thesis by (simp add: p)
  next
    case False
    have "k' \<notin> set (map fst (map_set k v m))"
      using Cons.prems False unfolding map_set_keys by (simp add: p)
    with Cons False show ?thesis by (simp add: p)
  qed
qed

lemma room_join_distinct: "distinct (map fst m) \<Longrightarrow> distinct (map fst (room_join room ws m))"
  by (simp add: room_join_def map_modify_keys map_set_distinct)

lemma room_leave_distinct: "distinct (map fst m) \<Longrightarrow> distinct (map fst (room_leave room ws m))"
  by (simp add: room_leave_def map_modify_keys)

lemma close_rooms_distinct: "distinct (map fst m) \<Longrightarrow> distinct (map fst (close_rooms ws m))"
proof (induction ws m rule: close_rooms.induct)
  case (1 ws)
  show ?case by simp
next
  case (2 ws room clients rest)
  from "2.prems" have rest: "distinct (map fst rest)" and new: "room \<notin> fst ` set rest" by auto
  from new close_rooms_keys[of ws rest] have "room \<notin> fst ` set (close_rooms ws rest)" by blast
  with "2.IH" rest show ?case by auto
qed

lemma on_message_distinct:
  "distinct (map fst (rooms s)) \<Longrightarrow> distinct (map fst (rooms (on_message ws userId message s)))"
  by (cases message)
     (simp_all add: on_message_def dispatch_def Let_def rooms_send rooms_room_message
        rooms_send_challenge rooms_decline_challenge rooms_start_game_caught room_join_distinct
        room_leave_distinct)

lemma on_connection_distinct:
  "distinct (map fst (rooms s)) \<Longrightarrow> distinct (map fst (rooms (on_connection ws userId gameId s)))"
  by (simp add: on_connection_def Let_def map_modify_keys room_join_distinct room_leave_distinct
           split: option.splits)

lemma on_close_distinct:
  "distinct (map fst (rooms s)) \<Longrightarrow> distinct (map fst (rooms (on_close ws userId s)))"
  by (simp add: on_close_def close_rooms_distinct)

lemma initial_distinct: "distinct (map fst (rooms initial_server))"
  by (simp add: initial_server_def)

lemma on_message_lobby:
  "map_has (rooms s) lobby \<Longrightarrow> map_has (rooms (on_message ws userId message s)) lobby"
  by (cases message)
     (simp_all add: on_message_def dispatch_def Let_def rooms_send rooms_room_message
        rooms_send_challenge rooms_decline_challenge rooms_start_game_caught room_leave_has
        room_join_def map_modify_has map_set_has)

lemma on_connection_lobby:
  "map_has (rooms s) lobby \<Longrightarrow> map_has (rooms (on_connection ws userId gameId s)) lobby"
  by (simp add: on_connection_def Let_def map_modify_has room_leave_has room_join_def map_set_has
           split: option.splits)

lemma initial_lobby: "map_has (rooms initial_server) lobby"
  by (simp add: initial_server_def map_has_def)

end
